theory Spec2Isabelle
  imports Complex_Main
begin

section \<open>Errors\<close>

text \<open>
  Every exception the modelled code can let through is a value. \<open>ImportError\<close> is
  raised by \<open>CohereReranker.__init__\<close>, \<open>IndexError\<close> by Python's list indexing,
  \<open>UpstreamError\<close> stands for whatever a vendor client raises (its message kept), and
  \<open>SchemaValidationError\<close> for the validation error of a structured payload.
\<close>

datatype error =
    ImportError string
  | IndexError
  | UpstreamError string
  | SchemaValidationError string

section \<open>Data model of the reranker (knowledge_base/reranker/cohere.py)\<close>

text \<open>
  Modelled from the spec: the declaration of a scored document
  (\<open>canopy.knowledge_base.models\<close>) is missing. \<open>rerank\<close> reads \<open>doc.text\<close>
  (here \<open>doc_text\<close>), writes \<open>doc.score\<close> and copies documents whole; the other
  fields of a document (id, source, metadata, ...) are never looked at and are kept
  together in \<open>other_fields\<close>. Python
  floats are read as the reals they denote: the code only compares them with \<open>>=\<close>
  and stores them.
\<close>

record 'a KBDocChunkWithScore =
  doc_text :: string
  score :: real
  other_fields :: 'a

text \<open>
  Documents are objects: \<open>rerank\<close> assigns to a field of one. They live in a store,
  a list indexed by address; allocation appends.
\<close>

type_synonym addr = nat

type_synonym 'a heap = "'a KBDocChunkWithScore list"

text \<open>
  Modelled from the spec: the declaration of \<open>KBQueryResult\<close>
  (\<open>canopy.knowledge_base.models\<close>) is missing. It has the two fields \<open>rerank\<close> reads
  and passes to its constructor, which is taken to store what it is given; the documents
  are references into the store.
\<close>

record KBQueryResult =
  query :: string
  documents :: "addr list"

text \<open>One entry of the vendor's rerank response: \<open>r.index\<close>, \<open>r.relevance_score\<close>.\<close>

record RerankResult =
  index :: int
  relevance_score :: real

text \<open>
  The \<open>cohere\<close> package is not part of the repository. It is taken as a parameter:
  its \<open>Client\<close> constructor and the \<open>rerank\<close> method of a client, both acting on
  the state \<open>'v\<close> of the world behind the vendor (network, service), both able to raise.
\<close>

record ('c, 'v) cohere_module =
  Client :: "string option \<Rightarrow> 'v \<Rightarrow> (error + 'c) \<times> 'v"
  client_rerank ::
    "'c \<Rightarrow> string \<Rightarrow> string list \<Rightarrow> int \<Rightarrow> string \<Rightarrow> 'v \<Rightarrow> (error + RerankResult list) \<times> 'v"

record 'c CohereReranker =
  client :: 'c
  model_name :: string
  top_n :: int
  threshold :: real

section \<open>Construction\<close>

text \<open>
  \<open>try: import cohere / except ...: _cohere_installed = False / else: True\<close>.
  The module is there (\<open>Some\<close>) exactly when the import succeeded.
\<close>

definition cohere_installed :: "('c, 'v) cohere_module option \<Rightarrow> bool" where
  "cohere_installed cohere = (cohere \<noteq> None)"

definition import_error_message :: string where
  "import_error_message =
     ''Failed to import cohere. Make sure you install cohere extra '' @
     ''dependencies by running: '' @
     ''`pip install canopy-sdk[cohere]''"

text \<open>
  \<open>CohereReranker.__init__\<close>. \<open>int(top_n)\<close> and \<open>float(threshold)\<close> are the
  identity on arguments of the annotated types.
\<close>

definition CohereReranker_init ::
  "('c, 'v) cohere_module option \<Rightarrow> string option \<Rightarrow> string \<Rightarrow> int \<Rightarrow> real \<Rightarrow> 'v
     \<Rightarrow> (error + 'c CohereReranker) \<times> 'v" where
  "CohereReranker_init cohere api_key mname topn thr v =
     (if \<not> cohere_installed cohere then (Inl (ImportError import_error_message), v)
      else
        (case Client (the cohere) api_key v of
           (Inl e, v') \<Rightarrow> (Inl e, v')
         | (Inr c, v') \<Rightarrow>
             (Inr \<lparr>client = c, model_name = mname, top_n = topn, threshold = thr\<rparr>, v')))"

section \<open>Reranking\<close>

text \<open>
  Python's \<open>xs[i]\<close>: a negative index counts from the end, anything outside raises.
\<close>

definition py_getitem :: "'b list \<Rightarrow> int \<Rightarrow> error + 'b" where
  "py_getitem xs i =
     (if 0 \<le> i \<and> i < int (length xs) then Inr (xs ! nat i)
      else if i < 0 \<and> - int (length xs) \<le> i then Inr (xs ! nat (int (length xs) + i))
      else Inl IndexError)"

text \<open>\<open>deepcopy(doc)\<close>: a new object with the same contents.\<close>

definition deepcopy :: "'a heap \<Rightarrow> addr \<Rightarrow> addr \<times> 'a heap" where
  "deepcopy h a = (length h, h @ [h ! a])"

text \<open>\<open>obj.score = s\<close>.\<close>

definition set_score :: "'a heap \<Rightarrow> addr \<Rightarrow> real \<Rightarrow> 'a heap" where
  "set_score h a s = h[a := (h ! a)\<lparr>score := s\<rparr>]"

text \<open>
  The inner loop, \<open>for r in response\<close>, with \<open>reranked_docs\<close> as accumulator:
  \<^verbatim>\<open>
  if r.relevance_score >= self._threshold:
      reranked_docs.append(deepcopy(q_res.documents[r.index]))
      reranked_docs[-1].score = r.relevance_score
  \<close>
\<close>

fun rerank_docs ::
  "real \<Rightarrow> addr list \<Rightarrow> RerankResult list \<Rightarrow> addr list \<Rightarrow> 'a heap
     \<Rightarrow> (error + addr list) \<times> 'a heap" where
  "rerank_docs thr docs [] reranked_docs h = (Inr reranked_docs, h)"
| "rerank_docs thr docs (r # response) reranked_docs h =
     (if relevance_score r \<ge> thr then
        (case py_getitem docs (index r) of
           Inl e \<Rightarrow> (Inl e, h)
         | Inr a \<Rightarrow>
             (case deepcopy h a of
                (a', h1) \<Rightarrow>
                  (let reranked_docs1 = reranked_docs @ [a'];
                       h2 = set_score h1 (last reranked_docs1) (relevance_score r)
                   in rerank_docs thr docs response reranked_docs1 h2)))
      else rerank_docs thr docs response reranked_docs h)"

text \<open>
  The outer loop, \<open>for q_res in results\<close>, with \<open>reranked\<close> as accumulator. The
  texts are read from the store as it is when the iteration starts.
\<close>

fun rerank_loop ::
  "('c, 'v) cohere_module \<Rightarrow> 'c CohereReranker \<Rightarrow> KBQueryResult list \<Rightarrow> KBQueryResult list
     \<Rightarrow> 'a heap \<Rightarrow> 'v \<Rightarrow> (error + KBQueryResult list) \<times> 'a heap \<times> 'v" where
  "rerank_loop cohere self [] reranked h v = (Inr reranked, h, v)"
| "rerank_loop cohere self (q_res # results) reranked h v =
     (let texts = map (\<lambda>a. doc_text (h ! a)) (documents q_res) in
      case client_rerank cohere (client self) (query q_res) texts (top_n self)
             (model_name self) v of
        (Inl e, v1) \<Rightarrow> (Inl e, h, v1)
      | (Inr response, v1) \<Rightarrow>
          (case rerank_docs (threshold self) (documents q_res) response [] h of
             (Inl e, h1) \<Rightarrow> (Inl e, h1, v1)
           | (Inr reranked_docs, h1) \<Rightarrow>
               rerank_loop cohere self results
                 (reranked @ [\<lparr>query = query q_res, documents = reranked_docs\<rparr>]) h1 v1))"

definition rerank ::
  "('c, 'v) cohere_module \<Rightarrow> 'c CohereReranker \<Rightarrow> KBQueryResult list \<Rightarrow> 'a heap \<Rightarrow> 'v
     \<Rightarrow> (error + KBQueryResult list) \<times> 'a heap \<times> 'v" where
  "rerank cohere self results h v = rerank_loop cohere self results [] h v"

section \<open>Enforced function call\<close>

text \<open>
  \<open>canopy/llm/openai.py\<close> and \<open>canopy/llm/models.py\<close> are missing; their system tests
  (\<open>tests/system/llm/test_openai.py\<close>) are there. The orchestrator and the validator
  below follow the specification's section 4.1, the data its section 3 and the test
  fixtures.
\<close>

text \<open>Modelled from the spec: the role of a Message, an enumeration.\<close>

datatype Role = USER | ASSISTANT | SYSTEM | FUNCTION

text \<open>Modelled from the spec: a Message, \<open>{role, content}\<close>.\<close>

record MessageBase =
  role :: Role
  content :: string

text \<open>
  Modelled from the spec: the decoded argument payload, a JSON value. A key/value mapping
  is an association list read with \<open>map_of\<close>.
\<close>

datatype json =
    JNull
  | JBool bool
  | JInt int
  | JFloat real
  | JString string
  | JArray "json list"
  | JObject "(string \<times> json) list"

text \<open>
  Modelled from the spec: a typed property descriptor: name, declared type, description.
  An array property declares the type of its items (\<open>items_type="string"\<close> in the
  fixture).
\<close>

datatype FunctionProperty =
    FunctionArrayProperty string string string
  | FunctionPrimitiveProperty string string string

text \<open>Modelled from the spec: the name a descriptor declares.\<close>

fun property_name :: "FunctionProperty \<Rightarrow> string" where
  "property_name (FunctionArrayProperty n t d) = n"
| "property_name (FunctionPrimitiveProperty n t d) = n"

text \<open>Modelled from the spec: the schema of the parameters, \<open>{required_properties}\<close>.\<close>

record FunctionParameters =
  required_properties :: "FunctionProperty list"

text \<open>Modelled from the spec: a Function Definition, \<open>{name, description, parameters}\<close>.\<close>

record Function =
  name :: string
  description :: string
  parameters :: FunctionParameters

text \<open>
  Modelled from the spec: the optional generation parameters \<open>temperature\<close>, \<open>top_p\<close>,
  \<open>n\<close> (here \<open>n_choices\<close>) and \<open>max_tokens\<close>.
\<close>

record ModelParams =
  temperature :: "real option"
  top_p :: "real option"
  n_choices :: "int option"
  max_tokens :: "int option"

text \<open>Modelled from the spec: what one call hands to the vendor chat client.\<close>

record ChatRequest =
  request_messages :: "MessageBase list"
  request_function :: Function
  request_params :: ModelParams

text \<open>
  Modelled from the spec: one round trip to the vendor chat client, asked to call the
  named function: it raises, or it answers and the argument payload of its first tool
  call, decoded, is returned. The client is a parameter; it acts on the state \<open>'v\<close> of
  the world behind it, so two attempts may answer differently.
\<close>

datatype ChatOutcome = Raises string | Returns json

type_synonym 'v chat_client = "ChatRequest \<Rightarrow> 'v \<Rightarrow> ChatOutcome \<times> 'v"

text \<open>
  Modelled from the spec: the Function-Call Schema Validator, whose code is missing.
  \<open>has_json_type\<close> is the declared-type check on one value, by JSON Schema type name.
\<close>

fun has_json_type :: "string \<Rightarrow> json \<Rightarrow> bool" where
  "has_json_type t JNull = (t = ''null'')"
| "has_json_type t (JBool b) = (t = ''boolean'')"
| "has_json_type t (JInt i) = (t = ''integer'' \<or> t = ''number'')"
| "has_json_type t (JFloat x) = (t = ''number'')"
| "has_json_type t (JString s) = (t = ''string'')"
| "has_json_type t (JArray xs) = (t = ''array'')"
| "has_json_type t (JObject kvs) = (t = ''object'')"

text \<open>
  Modelled from the spec: a non-empty value. A text, a sequence and a mapping can be
  empty; a number, a truth value and null cannot.
\<close>

fun json_nonempty :: "json \<Rightarrow> bool" where
  "json_nonempty (JString s) = (s \<noteq> [])"
| "json_nonempty (JArray xs) = (xs \<noteq> [])"
| "json_nonempty (JObject kvs) = (kvs \<noteq> [])"
| "json_nonempty x = True"

text \<open>
  Modelled from the spec: the check of one required property that is present. A
  primitive property has its declared type. An array property is, as the Output
  guarantee of section 4.1 has it, a non-empty ordered sequence whose elements are
  non-empty values of the declared item type.
\<close>

fun property_conforms :: "FunctionProperty \<Rightarrow> json \<Rightarrow> bool" where
  "property_conforms (FunctionArrayProperty n t d) (JArray xs) =
     (xs \<noteq> [] \<and> list_all (\<lambda>x. has_json_type t x \<and> json_nonempty x) xs)"
| "property_conforms (FunctionArrayProperty n t d) _ = False"
| "property_conforms (FunctionPrimitiveProperty n t d) x = has_json_type t x"

text \<open>
  Modelled from the spec: the message of a missing required property, as the test
  expects it: \<open>'queries' is a required property\<close>.
\<close>

definition required_message :: "string \<Rightarrow> string" where
  "required_message p = [CHR 0x27] @ p @ [CHR 0x27] @ '' is a required property''"

text \<open>
  Modelled from the spec: the message of a property that is present and does not
  satisfy its declaration.
\<close>

definition type_message :: "string \<Rightarrow> string" where
  "type_message p = [CHR 0x27] @ p @ [CHR 0x27] @ '' is not of the declared type''"

text \<open>
  Modelled from the spec: validation of a payload against the Function Definition's
  declared schema: it is a key/value mapping, every required property name is a key, and
  every required property satisfies its declaration. The validated mapping is returned.
\<close>

definition validate :: "Function \<Rightarrow> json \<Rightarrow> error + (string \<times> json) list" where
  "validate function payload =
     (case payload of
        JObject kvs \<Rightarrow>
          (case find (\<lambda>p. map_of kvs (property_name p) = None)
                  (required_properties (parameters function)) of
             Some p \<Rightarrow> Inl (SchemaValidationError (required_message (property_name p)))
           | None \<Rightarrow>
               (case find (\<lambda>p. \<not> property_conforms p (the (map_of kvs (property_name p))))
                       (required_properties (parameters function)) of
                  Some p \<Rightarrow> Inl (SchemaValidationError (type_message (property_name p)))
                | None \<Rightarrow> Inr kvs))
      | _ \<Rightarrow> Inl (SchemaValidationError ''payload is not of type object''))"

text \<open>
  Modelled from the spec: the Enforced Function-Call Orchestrator, whose code is missing.
  \<open>attempt retries\<close> is one attempt with \<open>retries\<close> more allowed after it. A vendor
  error is surfaced at once; a validation failure is retried while retries remain and
  surfaced otherwise. The second component counts the vendor calls made.
\<close>

primrec attempt ::
  "nat \<Rightarrow> 'v chat_client \<Rightarrow> ChatRequest \<Rightarrow> nat \<Rightarrow> 'v
     \<Rightarrow> (error + (string \<times> json) list) \<times> nat \<times> 'v" where
  "attempt 0 chat req calls v =
     (case chat req v of
        (Raises e, v1) \<Rightarrow> (Inl (UpstreamError e), Suc calls, v1)
      | (Returns payload, v1) \<Rightarrow> (validate (request_function req) payload, Suc calls, v1))"
| "attempt (Suc retries) chat req calls v =
     (case chat req v of
        (Raises e, v1) \<Rightarrow> (Inl (UpstreamError e), Suc calls, v1)
      | (Returns payload, v1) \<Rightarrow>
          (case validate (request_function req) payload of
             Inr arguments \<Rightarrow> (Inr arguments, Suc calls, v1)
           | Inl err \<Rightarrow> attempt retries chat req (Suc calls) v1))"

text \<open>Modelled from the spec: the fixed bound, 3 total attempts.\<close>

definition max_attempts :: nat where
  "max_attempts = 3"

text \<open>
  Modelled from the spec: \<open>enforced_function_call\<close>, the orchestrator's entry: the first
  attempt, with \<open>max_attempts - 1\<close> retries after it and no vendor call made yet.
\<close>

definition enforced_function_call ::
  "'v chat_client \<Rightarrow> MessageBase list \<Rightarrow> Function \<Rightarrow> ModelParams \<Rightarrow> 'v
     \<Rightarrow> (error + (string \<times> json) list) \<times> nat \<times> 'v" where
  "enforced_function_call chat messages function model_params v =
     attempt (max_attempts - 1) chat
       \<lparr>request_messages = messages, request_function = function,
        request_params = model_params\<rparr> 0 v"

section \<open>Notions used in the statements\<close>

text \<open>The element a Python index denotes, when it denotes one.\<close>

definition resolve :: "'b list \<Rightarrow> int \<Rightarrow> 'b" where
  "resolve xs i = (if 0 \<le> i then xs ! nat i else xs ! nat (int (length xs) + i))"

text \<open>
  \<open>reranked_from cohere self h h' q_res out\<close>: the result \<open>out\<close> is what one iteration
  of \<open>rerank\<close> makes of \<open>q_res\<close>, between the store \<open>h\<close> at the call and the
  store \<open>h'\<close> at the return.
\<close>

definition reranked_from ::
  "('c, 'v) cohere_module \<Rightarrow> 'c CohereReranker \<Rightarrow> 'a heap \<Rightarrow> 'a heap
     \<Rightarrow> KBQueryResult \<Rightarrow> KBQueryResult \<Rightarrow> bool" where
  "reranked_from cohere self h h' q_res out \<longleftrightarrow>
     query out = query q_res \<and>
     (\<exists>response v0 v1.
        client_rerank cohere (client self) (query q_res)
          (map (\<lambda>a. doc_text (h ! a)) (documents q_res)) (top_n self) (model_name self) v0
          = (Inr response, v1) \<and>
        length (documents out) = length (filter (\<lambda>r. threshold self \<le> relevance_score r) response) \<and>
        (\<forall>j<length (documents out).
           \<exists>a. py_getitem (documents q_res)
                  (index (filter (\<lambda>r. threshold self \<le> relevance_score r) response ! j)) = Inr a \<and>
               length h \<le> documents out ! j \<and>
               documents out ! j < length h' \<and>
               h' ! (documents out ! j) =
                 (h ! a)\<lparr>score := relevance_score
                    (filter (\<lambda>r. threshold self \<le> relevance_score r) response ! j)\<rparr>))"

section \<open>Concrete inputs\<close>

definition example_heap :: "unit heap" where
  "example_heap =
     [\<lparr>doc_text = ''alpha'', score = 1 / 10, other_fields = ()\<rparr>,
      \<lparr>doc_text = ''beta'', score = 2 / 10, other_fields = ()\<rparr>]"

definition example_results :: "KBQueryResult list" where
  "example_results = [\<lparr>query = ''greek letters'', documents = [0, 1]\<rparr>]"

text \<open>
  A vendor package that ranks the second text first and answers with its ranking cut to
  the \<open>top_n\<close> it is sent; it refuses a \<open>top_n\<close> below 1.
\<close>

definition example_cohere :: "(unit, nat) cohere_module" where
  "example_cohere =
     \<lparr>Client = (\<lambda>api_key v. (Inr (), v)),
      client_rerank = (\<lambda>c q texts topn model v.
         if topn < 1 then (Inl (UpstreamError ''invalid request: top_n''), Suc v)
         else
           (Inr (take (nat topn)
                   [\<lparr>index = 1, relevance_score = 9 / 10\<rparr>,
                    \<lparr>index = 0, relevance_score = 3 / 10\<rparr>]), Suc v))\<rparr>"

definition example_reranker :: "unit CohereReranker" where
  "example_reranker =
     \<lparr>client = (), model_name = ''rerank-english-v2.0'', top_n = 10, threshold = 1 / 2\<rparr>"

definition top_one_reranker :: "unit CohereReranker" where
  "top_one_reranker =
     \<lparr>client = (), model_name = ''rerank-english-v2.0'', top_n = 1, threshold = 0\<rparr>"

text \<open>A vendor package whose \<open>Client\<close> constructor refuses a missing API key.\<close>

definition failing_cohere :: "(unit, nat) cohere_module" where
  "failing_cohere =
     \<lparr>Client = (\<lambda>api_key v.
         (case api_key of
            None \<Rightarrow> (Inl (UpstreamError ''No API key provided''), Suc v)
          | Some k \<Rightarrow> (Inr (), Suc v))),
      client_rerank = (\<lambda>c q texts topn model v. (Inr [], Suc v))\<rparr>"

text \<open>
  The fixtures of \<open>tests/system/llm/test_openai.py\<close>, and vendor chat clients that
  answer the same way on every call: the mock of
  \<open>test_enforce_function_wrong_output_schema\<close>, the mock of
  \<open>test_enforce_function_api_failure_populates\<close>, one that answers with an empty
  list of queries, and one that answers with one query; and a client that answers with
  the wrong schema on the first call and raises on every later one.
\<close>

definition function_query_knowledgebase :: Function where
  "function_query_knowledgebase =
     \<lparr>name = ''query_knowledgebase'',
      description = ''Query search engine for relevant information'',
      parameters = \<lparr>required_properties =
        [FunctionArrayProperty ''queries'' ''string''
           ''List of queries to send to the search engine.'']\<rparr>\<rparr>"

definition example_messages :: "MessageBase list" where
  "example_messages =
     [\<lparr>role = USER, content = ''Hello, assistant.''\<rparr>,
      \<lparr>role = ASSISTANT, content = ''Hello, user. How can I assist you?''\<rparr>]"

definition default_params :: ModelParams where
  "default_params = \<lparr>temperature = None, top_p = None, n_choices = None, max_tokens = None\<rparr>"

definition wrong_schema_client :: "nat chat_client" where
  "wrong_schema_client req v = (Returns (JObject [(''key'', JString ''value'')]), Suc v)"

definition failing_client :: "nat chat_client" where
  "failing_client req v = (Raises ''API call failed'', Suc v)"

definition flaky_client :: "nat chat_client" where
  "flaky_client req v =
     (if v = 0 then (Returns (JObject [(''key'', JString ''value'')]), Suc v)
      else (Raises ''API call failed'', Suc v))"

definition empty_queries_client :: "nat chat_client" where
  "empty_queries_client req v = (Returns (JObject [(''queries'', JArray [])]), Suc v)"


section \<open>Python indexing, copying, assignment\<close>

text \<open>Facts about the store shared by the theorems on \<open>rerank\<close>.\<close>

lemma py_getitem_Inr:
  "py_getitem xs i = Inr a \<Longrightarrow> a \<in> set xs \<and> a = resolve xs i"
  by (auto simp: py_getitem_def resolve_def split: if_splits)

lemma deepcopy_simp: "deepcopy h a = (length h, h @ [h ! a])"
  by (simp add: deepcopy_def)

lemma set_score_fresh:
  "set_score (h @ [d]) (length h) s = h @ [d\<lparr>score := s\<rparr>]"
  by (simp add: set_score_def)

lemma upt_shift: "[n..<n + Suc k] = n # [Suc n..<Suc n + k]"
  by (simp add: upt_conv_Cons del: upt_Suc)

lemma rerank_docs_prefix:
  "rerank_docs thr docs response acc h = (res, h') \<Longrightarrow> \<exists>ext. h' = h @ ext"
proof (induction response arbitrary: acc h)
  case Nil
  then show ?case by simp
next
  case (Cons r response)
  show ?case
  proof (cases "thr \<le> relevance_score r")
    case False
    with Cons show ?thesis by simp
  next
    case True
    show ?thesis
    proof (cases "py_getitem docs (index r)")
      case (Inl e)
      with True Cons.prems show ?thesis by simp
    next
      case (Inr a)
      with True Cons.prems have
        "rerank_docs thr docs response (acc @ [length h])
           (h @ [(h ! a)\<lparr>score := relevance_score r\<rparr>]) = (res, h')"
        by (simp add: deepcopy_simp set_score_fresh)
      from Cons.IH [OF this] show ?thesis by auto
    qed
  qed
qed

lemma rerank_docs_Inr:
  assumes "rerank_docs thr docs response acc h = (Inr out, h')"
    and "\<forall>a\<in>set docs. a < length h"
  shows "out = acc @ [length h ..< length h + length (filter (\<lambda>r. thr \<le> relevance_score r) response)]
       \<and> h' = h @ map (\<lambda>r. (h ! resolve docs (index r))\<lparr>score := relevance_score r\<rparr>)
                    (filter (\<lambda>r. thr \<le> relevance_score r) response)
       \<and> (\<forall>r\<in>set (filter (\<lambda>r. thr \<le> relevance_score r) response).
             py_getitem docs (index r) = Inr (resolve docs (index r)))"
  using assms
proof (induction response arbitrary: acc h)
  case Nil
  then show ?case by simp
next
  case (Cons r response)
  show ?case
  proof (cases "thr \<le> relevance_score r")
    case False
    with Cons.prems have "rerank_docs thr docs response acc h = (Inr out, h')" by simp
    from Cons.IH [OF this Cons.prems(2)] False show ?thesis by simp
  next
    case True
    show ?thesis
    proof (cases "py_getitem docs (index r)")
      case (Inl e)
      with True Cons.prems show ?thesis by simp
    next
      case (Inr a)
      let ?h2 = "h @ [(h ! a)\<lparr>score := relevance_score r\<rparr>]"
      let ?kept = "filter (\<lambda>r. thr \<le> relevance_score r) response"
      from Inr have a: "a \<in> set docs" "a = resolve docs (index r)"
        using py_getitem_Inr by fastforce+
      from Inr True Cons.prems have run:
        "rerank_docs thr docs response (acc @ [length h]) ?h2 = (Inr out, h')"
        by (simp add: deepcopy_simp set_score_fresh)
      have wf2: "\<forall>a\<in>set docs. a < length ?h2" using Cons.prems(2) by auto
      from Cons.IH [OF run wf2] have
        out: "out = (acc @ [length h]) @ [length ?h2 ..< length ?h2 + length ?kept]"
        and h': "h' = ?h2 @ map (\<lambda>r. (?h2 ! resolve docs (index r))\<lparr>score := relevance_score r\<rparr>) ?kept"
        and ok: "\<forall>r\<in>set ?kept. py_getitem docs (index r) = Inr (resolve docs (index r))"
        by blast+
      have same: "\<forall>r\<in>set ?kept. ?h2 ! resolve docs (index r) = h ! resolve docs (index r)"
      proof
        fix r' assume "r' \<in> set ?kept"
        with ok have "py_getitem docs (index r') = Inr (resolve docs (index r'))" by blast
        then have "resolve docs (index r') \<in> set docs" using py_getitem_Inr by fastforce
        with Cons.prems(2) have "resolve docs (index r') < length h" by blast
        then show "?h2 ! resolve docs (index r') = h ! resolve docs (index r')"
          by (simp add: nth_append)
      qed
      have m: "map (\<lambda>r. (?h2 ! resolve docs (index r))\<lparr>score := relevance_score r\<rparr>) ?kept
             = map (\<lambda>r. (h ! resolve docs (index r))\<lparr>score := relevance_score r\<rparr>) ?kept"
        using same by (intro map_cong) auto
      have o: "out = acc @ [length h ..< length h + length (filter (\<lambda>r. thr \<le> relevance_score r) (r # response))]"
        using out True upt_shift [of "length h" "length ?kept"] by simp
      have hh: "h' = h @ map (\<lambda>r. (h ! resolve docs (index r))\<lparr>score := relevance_score r\<rparr>)
                    (filter (\<lambda>r. thr \<le> relevance_score r) (r # response))"
        using h' m True a by simp
      have okk: "\<forall>r'\<in>set (filter (\<lambda>r. thr \<le> relevance_score r) (r # response)).
             py_getitem docs (index r') = Inr (resolve docs (index r'))"
        using ok True Inr a by auto
      from o hh okk show ?thesis by blast
    qed
  qed
qed

lemma reranked_from_step:
  assumes call: "client_rerank cohere (client self) (query q_res)
          (map (\<lambda>a. doc_text (h ! a)) (documents q_res)) (top_n self) (model_name self) v
          = (Inr response, v1)"
    and run: "rerank_docs (threshold self) (documents q_res) response [] h = (Inr ds, h1)"
    and wf: "\<forall>a\<in>set (documents q_res). a < length h"
  shows "reranked_from cohere self h h1 q_res \<lparr>query = query q_res, documents = ds\<rparr>"
proof -
  let ?kept = "filter (\<lambda>r. threshold self \<le> relevance_score r) response"
  from rerank_docs_Inr [OF run wf] have
    ds: "ds = [length h ..< length h + length ?kept]"
    and h1: "h1 = h @ map (\<lambda>r. (h ! resolve (documents q_res) (index r))\<lparr>score := relevance_score r\<rparr>) ?kept"
    and ok: "\<forall>r\<in>set ?kept. py_getitem (documents q_res) (index r) = Inr (resolve (documents q_res) (index r))"
    by simp_all
  have len: "length ds = length ?kept" using ds by simp
  have each: "\<exists>a. py_getitem (documents q_res) (index (?kept ! j)) = Inr a \<and>
               length h \<le> ds ! j \<and> ds ! j < length h1 \<and>
               h1 ! (ds ! j) = (h ! a)\<lparr>score := relevance_score (?kept ! j)\<rparr>"
    if j: "j < length ds" for j
  proof -
    from j len have jk: "j < length ?kept" by simp
    then have mem: "?kept ! j \<in> set ?kept" by (rule nth_mem)
    have dj: "ds ! j = length h + j" using ds jk by simp
    have "h1 ! (length h + j) =
          (h ! resolve (documents q_res) (index (?kept ! j)))\<lparr>score := relevance_score (?kept ! j)\<rparr>"
      using jk by (simp add: h1 nth_append)
    moreover have "length h + j < length h1" using jk by (simp add: h1)
    ultimately show ?thesis using ok mem dj by auto
  qed
  show ?thesis
    unfolding reranked_from_def using call len each by auto
qed

lemma reranked_from_later:
  assumes "reranked_from cohere self h h1 q_res out"
  shows "reranked_from cohere self h (h1 @ ext) q_res out"
  using assms unfolding reranked_from_def
  by (fastforce simp: nth_append)

lemma reranked_from_earlier:
  assumes r: "reranked_from cohere self (h @ ext) h' q_res out"
    and wf: "\<forall>a\<in>set (documents q_res). a < length h"
  shows "reranked_from cohere self h h' q_res out"
proof -
  have texts: "map (\<lambda>a. doc_text ((h @ ext) ! a)) (documents q_res)
             = map (\<lambda>a. doc_text (h ! a)) (documents q_res)"
    using wf by (intro map_cong) (auto simp: nth_append)
  have same: "(h @ ext) ! a = h ! a" if "py_getitem (documents q_res) i = Inr a" for i a
  proof -
    from that have "a \<in> set (documents q_res)" using py_getitem_Inr by fastforce
    with wf show ?thesis by (simp add: nth_append)
  qed
  from r show ?thesis
    unfolding reranked_from_def texts
    apply (elim conjE exE)
    apply (intro conjI, assumption)
    subgoal for response v0 v1
      apply (rule exI [of _ response], rule exI [of _ v0], rule exI [of _ v1])
      apply (intro conjI, assumption, assumption)
      apply (intro allI impI)
      subgoal for j
        apply (drule spec [of _ j], drule (1) mp)
        apply (elim exE conjE)
        subgoal for a
          apply (rule exI [of _ a])
          using same [of _ a] by auto
        done
      done
    done
qed

lemma rerank_loop_prefix:
  "rerank_loop cohere self results acc h v = (res, h', v') \<Longrightarrow> \<exists>ext. h' = h @ ext"
proof (induction results arbitrary: acc h v)
  case Nil
  then show ?case by simp
next
  case (Cons q_res results)
  obtain r1 v1 where call: "client_rerank cohere (client self) (query q_res)
          (map (\<lambda>a. doc_text (h ! a)) (documents q_res)) (top_n self) (model_name self) v = (r1, v1)"
    by (cases "client_rerank cohere (client self) (query q_res)
          (map (\<lambda>a. doc_text (h ! a)) (documents q_res)) (top_n self) (model_name self) v") 
  show ?case
  proof (cases r1)
    case (Inl e)
    with call Cons.prems show ?thesis by simp
  next
    case (Inr response)
    obtain r2 h1 where run: "rerank_docs (threshold self) (documents q_res) response [] h = (r2, h1)"
      by (cases "rerank_docs (threshold self) (documents q_res) response [] h")
    from rerank_docs_prefix [OF run] obtain e1 where h1: "h1 = h @ e1" by blast
    show ?thesis
    proof (cases r2)
      case (Inl e)
      with call \<open>r1 = Inr response\<close> run Cons.prems h1 show ?thesis by auto
    next
      case (Inr ds)
      with call \<open>r1 = Inr response\<close> run Cons.prems have
        "rerank_loop cohere self results (acc @ [\<lparr>query = query q_res, documents = ds\<rparr>]) h1 v1 = (res, h', v')"
        by simp
      from Cons.IH [OF this] h1 show ?thesis by auto
    qed
  qed
qed

lemma rerank_loop_Inr:
  assumes "rerank_loop cohere self results acc h v = (Inr out, h', v')"
    and "\<forall>q\<in>set results. \<forall>a\<in>set (documents q). a < length h"
  shows "\<exists>outs. out = acc @ outs \<and> list_all2 (reranked_from cohere self h h') results outs"
  using assms
proof (induction results arbitrary: acc h v)
  case Nil
  then show ?case by simp
next
  case (Cons q_res results)
  obtain r1 v1 where call: "client_rerank cohere (client self) (query q_res)
          (map (\<lambda>a. doc_text (h ! a)) (documents q_res)) (top_n self) (model_name self) v = (r1, v1)"
    by (cases "client_rerank cohere (client self) (query q_res)
          (map (\<lambda>a. doc_text (h ! a)) (documents q_res)) (top_n self) (model_name self) v") 
  show ?case
  proof (cases r1)
    case (Inl e)
    with call Cons.prems show ?thesis by simp
  next
    case (Inr response)
    note resp = this
    obtain r2 h1 where run: "rerank_docs (threshold self) (documents q_res) response [] h = (r2, h1)"
      by (cases "rerank_docs (threshold self) (documents q_res) response [] h")
    from rerank_docs_prefix [OF run] obtain e1 where h1: "h1 = h @ e1" by blast
    show ?thesis
    proof (cases r2)
      case (Inl e)
      with call resp run Cons.prems show ?thesis by simp
    next
      case (Inr ds)
      let ?new = "\<lparr>query = query q_res, documents = ds\<rparr>"
      from Inr call resp run Cons.prems(1) have rec:
        "rerank_loop cohere self results (acc @ [?new]) h1 v1 = (Inr out, h', v')"
        by simp
      from rerank_loop_prefix [OF rec] obtain e2 where h': "h' = h1 @ e2" by blast
      have wfq: "\<forall>a\<in>set (documents q_res). a < length h" using Cons.prems(2) by simp
      have wf1: "\<forall>q\<in>set results. \<forall>a\<in>set (documents q). a < length h1"
        using Cons.prems(2) h1 by fastforce
      from Cons.IH [OF rec wf1] obtain outs where
        out: "out = (acc @ [?new]) @ outs"
        and rest: "list_all2 (reranked_from cohere self h1 h') results outs" by blast
      have hd: "reranked_from cohere self h h' q_res ?new"
        using reranked_from_step [OF _ _ wfq] call resp run Inr h'
          reranked_from_later by fastforce
      have rest': "list_all2 (reranked_from cohere self h h') results outs"
        unfolding list_all2_conv_all_nth
      proof (intro conjI allI impI)
        show "length results = length outs" using rest by (simp add: list_all2_lengthD)
      next
        fix i assume i: "i < length results"
        with rest have "reranked_from cohere self h1 h' (results ! i) (outs ! i)"
          by (simp add: list_all2_conv_all_nth)
        moreover have "\<forall>a\<in>set (documents (results ! i)). a < length h"
          using Cons.prems(2) nth_mem [OF i] by auto
        ultimately show "reranked_from cohere self h h' (results ! i) (outs ! i)"
          using reranked_from_earlier [of cohere self h e1 h'] h1 by simp
      qed
      from out hd rest' show ?thesis by simp
    qed
  qed
qed

lemma example_run:
  "rerank example_cohere example_reranker example_results example_heap 0 =
     (Inr [\<lparr>query = ''greek letters'', documents = [2]\<rparr>],
      example_heap @ [\<lparr>doc_text = ''beta'', score = 9 / 10, other_fields = ()\<rparr>], 1)"
  by (simp add: rerank_def example_cohere_def example_reranker_def example_results_def
      example_heap_def py_getitem_def deepcopy_def set_score_def)

lemma rerank_docs_fresh:
  "rerank_docs thr docs response acc h = (Inr out, h') \<Longrightarrow>
     \<exists>new. out = acc @ new \<and> (\<forall>a\<in>set new. length h \<le> a \<and> a < length h')"
proof (induction response arbitrary: acc h)
  case Nil
  then show ?case by simp
next
  case (Cons r response)
  show ?case
  proof (cases "thr \<le> relevance_score r")
    case False
    with Cons show ?thesis by simp
  next
    case True
    show ?thesis
    proof (cases "py_getitem docs (index r)")
      case (Inl e)
      with True Cons.prems show ?thesis by simp
    next
      case (Inr a)
      let ?h2 = "h @ [(h ! a)\<lparr>score := relevance_score r\<rparr>]"
      from Inr True Cons.prems have run:
        "rerank_docs thr docs response (acc @ [length h]) ?h2 = (Inr out, h')"
        by (simp add: deepcopy_simp set_score_fresh)
      from rerank_docs_prefix [OF run] obtain ext where "h' = ?h2 @ ext" by blast
      then have len: "length h < length h'" by simp
      from Cons.IH [OF run] obtain new where
        "out = (acc @ [length h]) @ new" "\<forall>a\<in>set new. length ?h2 \<le> a \<and> a < length h'"
        by blast
      with len have "out = acc @ (length h # new) \<and>
          (\<forall>a\<in>set (length h # new). length h \<le> a \<and> a < length h')"
        by auto
      then show ?thesis by blast
    qed
  qed
qed

lemma rerank_loop_shape:
  "rerank_loop cohere self results acc h v = (Inr out, h', v') \<Longrightarrow>
     \<exists>outs. out = acc @ outs \<and> map query outs = map query results \<and>
       (\<forall>q\<in>set outs. \<forall>a\<in>set (documents q). length h \<le> a \<and> a < length h')"
proof (induction results arbitrary: acc h v)
  case Nil
  then show ?case by simp
next
  case (Cons q_res results)
  obtain r1 v1 where call: "client_rerank cohere (client self) (query q_res)
          (map (\<lambda>a. doc_text (h ! a)) (documents q_res)) (top_n self) (model_name self) v = (r1, v1)"
    by (cases "client_rerank cohere (client self) (query q_res)
          (map (\<lambda>a. doc_text (h ! a)) (documents q_res)) (top_n self) (model_name self) v") 
  show ?case
  proof (cases r1)
    case (Inl e)
    with call Cons.prems show ?thesis by simp
  next
    case (Inr response)
    note resp = this
    obtain r2 h1 where run: "rerank_docs (threshold self) (documents q_res) response [] h = (r2, h1)"
      by (cases "rerank_docs (threshold self) (documents q_res) response [] h")
    show ?thesis
    proof (cases r2)
      case (Inl e)
      with call resp run Cons.prems show ?thesis by simp
    next
      case (Inr ds)
      let ?new = "\<lparr>query = query q_res, documents = ds\<rparr>"
      from Inr call resp run Cons.prems(1) have rec:
        "rerank_loop cohere self results (acc @ [?new]) h1 v1 = (Inr out, h', v')"
        by simp
      from rerank_docs_prefix [OF run] obtain e1 where h1: "h1 = h @ e1" by blast
      from rerank_loop_prefix [OF rec] obtain e2 where h': "h' = h1 @ e2" by blast
      from rerank_docs_fresh [of _ _ _ "[]"] run Inr
      have ds: "\<forall>a\<in>set ds. length h \<le> a \<and> a < length h1" by fastforce
      from Cons.IH [OF rec] obtain outs where
        out: "out = (acc @ [?new]) @ outs" and q: "map query outs = map query results"
        and fr: "\<forall>q\<in>set outs. \<forall>a\<in>set (documents q). length h1 \<le> a \<and> a < length h'"
        by blast
      have "out = acc @ (?new # outs)" using out by simp
      moreover have "map query (?new # outs) = map query (q_res # results)" using q by simp
      moreover have "\<forall>q\<in>set (?new # outs). \<forall>a\<in>set (documents q). length h \<le> a \<and> a < length h'"
        using ds fr h1 h' by fastforce
      ultimately show ?thesis by blast
    qed
  qed
qed

text \<open>
  \<open>rerank\<close> returns whenever every vendor call answers and the entries that pass the
  threshold carry an index that Python's indexing accepts.
\<close>

lemma rerank_docs_returns:
  assumes "\<forall>r\<in>set response. thr \<le> relevance_score r \<longrightarrow>
             - int (length docs) \<le> index r \<and> index r < int (length docs)"
  shows "\<exists>out h'. rerank_docs thr docs response acc h = (Inr out, h')"
  using assms
proof (induction response arbitrary: acc h)
  case Nil
  then show ?case by simp
next
  case (Cons r response)
  show ?case
  proof (cases "thr \<le> relevance_score r")
    case False
    with Cons show ?thesis by simp
  next
    case True
    with Cons.prems have "- int (length docs) \<le> index r" "index r < int (length docs)"
      by simp_all
    then have "\<exists>a. py_getitem docs (index r) = Inr a"
      by (cases "0 \<le> index r") (simp_all add: py_getitem_def)
    then obtain a where "py_getitem docs (index r) = Inr a" by blast
    with True Cons show ?thesis by (simp add: deepcopy_def)
  qed
qed

lemma rerank_loop_returns:
  assumes "\<forall>q\<in>set results. \<forall>texts u. \<exists>response u'.
             client_rerank cohere (client self) (query q) texts (top_n self)
               (model_name self) u = (Inr response, u') \<and>
             (\<forall>r\<in>set response. threshold self \<le> relevance_score r \<longrightarrow>
                - int (length (documents q)) \<le> index r \<and>
                index r < int (length (documents q)))"
  shows "\<exists>out h' v'. rerank_loop cohere self results acc h v = (Inr out, h', v')"
  using assms
proof (induction results arbitrary: acc h v)
  case Nil
  then show ?case by simp
next
  case (Cons q_res results)
  from Cons.prems obtain response v1 where
    call: "client_rerank cohere (client self) (query q_res)
             (map (\<lambda>a. doc_text (h ! a)) (documents q_res)) (top_n self)
             (model_name self) v = (Inr response, v1)"
    and ok: "\<forall>r\<in>set response. threshold self \<le> relevance_score r \<longrightarrow>
                - int (length (documents q_res)) \<le> index r \<and>
                index r < int (length (documents q_res))"
    by (metis list.set_intros(1))
  from rerank_docs_returns [OF ok] obtain ds h1 where
    run: "rerank_docs (threshold self) (documents q_res) response [] h = (Inr ds, h1)"
    by blast
  have rest: "\<forall>q\<in>set results. \<forall>texts u. \<exists>response u'.
             client_rerank cohere (client self) (query q) texts (top_n self)
               (model_name self) u = (Inr response, u') \<and>
             (\<forall>r\<in>set response. threshold self \<le> relevance_score r \<longrightarrow>
                - int (length (documents q)) \<le> index r \<and>
                index r < int (length (documents q)))"
    using Cons.prems by simp
  from Cons.IH [OF rest] call run show ?case by simp
qed

lemma rerank_returns:
  assumes "\<forall>q\<in>set results. \<forall>texts u. \<exists>response u'.
             client_rerank cohere (client self) (query q) texts (top_n self)
               (model_name self) u = (Inr response, u') \<and>
             (\<forall>r\<in>set response. threshold self \<le> relevance_score r \<longrightarrow>
                - int (length (documents q)) \<le> index r \<and>
                index r < int (length (documents q)))"
  shows "\<exists>out h' v'. rerank cohere self results h v = (Inr out, h', v')"
  unfolding rerank_def using assms by (rule rerank_loop_returns)

section \<open>Properties of rerank\<close>

text \<open>
  C10. \<open>rerank\<close> preserves the per-query structure: whenever it returns, the output
  list is exactly as long as the input list and the i-th output result carries the
  query string of the i-th input result.
\<close>

theorem rerank_preserves_queries:
  assumes "rerank cohere self results h v = (Inr out, h', v')"
  shows "length out = length results \<and>
         (\<forall>i<length results. query (out ! i) = query (results ! i))"
proof -
  from assms rerank_loop_shape [of cohere self results "[]" h v out h' v']
  have m: "map query out = map query results" by (auto simp: rerank_def)
  then have len: "length out = length results" by (rule map_eq_imp_length_eq)
  have "query (out ! i) = query (results ! i)" if "i < length results" for i
    using that len nth_map [of i out query] nth_map [of i results query] m by simp
  with len show ?thesis by blast
qed

theorem rerank_preserves_queries_witness:
  "rerank example_cohere example_reranker example_results example_heap 0 =
     (Inr [\<lparr>query = ''greek letters'', documents = [2]\<rparr>],
      example_heap @ [\<lparr>doc_text = ''beta'', score = 9 / 10, other_fields = ()\<rparr>], 1) \<and>
   length [\<lparr>query = ''greek letters'', documents = [2]\<rparr>] = length example_results \<and>
   query ([\<lparr>query = ''greek letters'', documents = [2]\<rparr>] ! 0) = query (example_results ! 0)"
proof -
  have "0 < length example_results" by (simp add: example_results_def)
  with rerank_preserves_queries [OF example_run] example_run show ?thesis by blast
qed

text \<open>
  C9. \<open>rerank\<close> never mutates its input. The only assignment it makes to an object is
  \<open>reranked_docs[-1].score = ...\<close>; the query results themselves are only read (they
  are values here). However \<open>rerank\<close> ends, by returning or by raising, every document
  object that existed at the call is still in the store with the contents it had, its
  \<open>score\<close> included; and when it returns, every document of the output is an object
  that did not exist at the call (a deep copy).
\<close>

theorem rerank_leaves_input:
  assumes "rerank cohere self results h v = (res, h', v')"
  shows "length h \<le> length h' \<and> (\<forall>a<length h. h' ! a = h ! a) \<and>
         (\<forall>out. res = Inr out \<longrightarrow>
            (\<forall>q\<in>set out. \<forall>a\<in>set (documents q). length h \<le> a \<and> a < length h'))"
proof -
  from assms rerank_loop_prefix [of cohere self results "[]" h v res h' v']
  obtain ext where "h' = h @ ext" by (auto simp: rerank_def)
  then have "length h \<le> length h'" "\<forall>a<length h. h' ! a = h ! a"
    by (simp_all add: nth_append)
  moreover have "\<forall>q\<in>set out. \<forall>a\<in>set (documents q). length h \<le> a \<and> a < length h'"
    if "res = Inr out" for out
    using that assms rerank_loop_shape [of cohere self results "[]" h v out h' v']
    by (auto simp: rerank_def)
  ultimately show ?thesis by blast
qed

theorem rerank_leaves_input_witness:
  "rerank example_cohere example_reranker example_results example_heap 0 =
     (Inr [\<lparr>query = ''greek letters'', documents = [2]\<rparr>],
      example_heap @ [\<lparr>doc_text = ''beta'', score = 9 / 10, other_fields = ()\<rparr>], 1) \<and>
   (example_heap @ [\<lparr>doc_text = ''beta'', score = 9 / 10, other_fields = ()\<rparr>]) ! 0 =
     example_heap ! 0 \<and>
   (example_heap @ [\<lparr>doc_text = ''beta'', score = 9 / 10, other_fields = ()\<rparr>]) ! 1 =
     example_heap ! 1 \<and>
   length example_heap \<le> 2"
proof -
  have len: "0 < length example_heap" "1 < length example_heap"
    by (simp_all add: example_heap_def)
  have mem: "\<lparr>query = ''greek letters'', documents = [2]\<rparr>
               \<in> set [\<lparr>query = ''greek letters'', documents = [2]\<rparr>]"
    "2 \<in> set (documents \<lparr>query = ''greek letters'', documents = [2::nat]\<rparr>)"
    by simp_all
  from rerank_leaves_input [OF example_run] len mem example_run show ?thesis by blast
qed

text \<open>
  What \<open>rerank\<close> makes of the vendor's response, whatever the vendor answers: the
  documents of the i-th output result are, in the order of the response to the i-th
  request, copies of the input documents that the entries with
  \<open>relevance_score >= threshold\<close> point at (an index read as Python reads it), each with
  \<open>score\<close> overwritten by that entry's relevance score. Their number is the number of
  such entries.
\<close>

lemma rerank_documents_of_response:
  assumes "rerank cohere self results h v = (Inr out, h', v')"
    and "\<forall>q\<in>set results. \<forall>a\<in>set (documents q). a < length h"
    and "i < length results"
  shows "\<exists>response v0 v1.
           client_rerank cohere (client self) (query (results ! i))
             (map (\<lambda>a. doc_text (h ! a)) (documents (results ! i))) (top_n self)
             (model_name self) v0 = (Inr response, v1) \<and>
           length (documents (out ! i)) =
             length (filter (\<lambda>r. threshold self \<le> relevance_score r) response) \<and>
           length (documents (out ! i)) \<le> length response \<and>
           (int (length response) \<le> top_n self \<longrightarrow>
              int (length (documents (out ! i))) \<le> top_n self) \<and>
           (\<forall>j<length (documents (out ! i)).
              \<exists>a. py_getitem (documents (results ! i))
                     (index (filter (\<lambda>r. threshold self \<le> relevance_score r) response ! j)) = Inr a \<and>
                  a \<in> set (documents (results ! i)) \<and>
                  threshold self \<le>
                    relevance_score (filter (\<lambda>r. threshold self \<le> relevance_score r) response ! j) \<and>
                  h' ! (documents (out ! i) ! j) =
                    (h ! a)\<lparr>score := relevance_score
                       (filter (\<lambda>r. threshold self \<le> relevance_score r) response ! j)\<rparr>)"
proof -
  from assms(1,2) rerank_loop_Inr [of cohere self results "[]" h v out h' v']
  have all: "list_all2 (reranked_from cohere self h h') results out"
    by (auto simp: rerank_def)
  with assms(3) have "reranked_from cohere self h h' (results ! i) (out ! i)"
    by (simp add: list_all2_conv_all_nth)
  then obtain response v0 v1 where
    call: "client_rerank cohere (client self) (query (results ! i))
             (map (\<lambda>a. doc_text (h ! a)) (documents (results ! i))) (top_n self)
             (model_name self) v0 = (Inr response, v1)"
    and len: "length (documents (out ! i)) =
             length (filter (\<lambda>r. threshold self \<le> relevance_score r) response)"
    and each: "\<forall>j<length (documents (out ! i)).
           \<exists>a. py_getitem (documents (results ! i))
                  (index (filter (\<lambda>r. threshold self \<le> relevance_score r) response ! j)) = Inr a \<and>
               length h \<le> documents (out ! i) ! j \<and>
               documents (out ! i) ! j < length h' \<and>
               h' ! (documents (out ! i) ! j) =
                 (h ! a)\<lparr>score := relevance_score
                    (filter (\<lambda>r. threshold self \<le> relevance_score r) response ! j)\<rparr>"
    unfolding reranked_from_def by blast
  let ?kept = "filter (\<lambda>r. threshold self \<le> relevance_score r) response"
  have le: "length (documents (out ! i)) \<le> length response"
    using len by simp
  have thr: "threshold self \<le> relevance_score (?kept ! j)" if "j < length (documents (out ! i))" for j
  proof -
    from that len have "j < length ?kept" by simp
    then have "?kept ! j \<in> set ?kept" by (rule nth_mem)
    then show ?thesis by (simp del: nth_mem)
  qed
  have each': "\<exists>a. py_getitem (documents (results ! i)) (index (?kept ! j)) = Inr a \<and>
                  a \<in> set (documents (results ! i)) \<and>
                  threshold self \<le> relevance_score (?kept ! j) \<and>
                  h' ! (documents (out ! i) ! j) = (h ! a)\<lparr>score := relevance_score (?kept ! j)\<rparr>"
    if j: "j < length (documents (out ! i))" for j
  proof -
    from each j obtain a where
      a: "py_getitem (documents (results ! i)) (index (?kept ! j)) = Inr a"
      and c: "h' ! (documents (out ! i) ! j) = (h ! a)\<lparr>score := relevance_score (?kept ! j)\<rparr>"
      by blast
    from a have "a \<in> set (documents (results ! i))" using py_getitem_Inr by fastforce
    with a c thr [OF j] show ?thesis by blast
  qed
  have top: "int (length response) \<le> top_n self \<longrightarrow>
              int (length (documents (out ! i))) \<le> top_n self"
    using le by linarith
  have every: "\<forall>j<length (documents (out ! i)).
              \<exists>a. py_getitem (documents (results ! i)) (index (?kept ! j)) = Inr a \<and>
                  a \<in> set (documents (results ! i)) \<and>
                  threshold self \<le> relevance_score (?kept ! j) \<and>
                  h' ! (documents (out ! i) ! j) = (h ! a)\<lparr>score := relevance_score (?kept ! j)\<rparr>"
    using each' by blast
  from call len le top every show ?thesis
    by (intro exI conjI) assumption+
qed

lemma top_one_run:
  "rerank example_cohere top_one_reranker example_results example_heap 0 =
     (Inr [\<lparr>query = ''greek letters'', documents = [2]\<rparr>],
      example_heap @ [\<lparr>doc_text = ''beta'', score = 9 / 10, other_fields = ()\<rparr>], 1)"
  by (simp add: rerank_def example_cohere_def top_one_reranker_def example_results_def
      example_heap_def py_getitem_def deepcopy_def set_score_def)

text \<open>
  C2. The vendor's contract is that it answers a request with at most the \<open>top_n\<close>
  entries it was asked for, each referring back into the documents sent. Under it,
  whenever \<open>rerank\<close> returns (on well-formed input: the documents of the query results
  are objects of the store), each document of the i-th output result is a copy of one of
  the i-th input result's documents, only documents whose vendor relevance score is at
  least the threshold are kept, each kept document's \<open>score\<close> is the vendor's relevance
  score, and the number of kept documents does not exceed \<open>top_n\<close>.
\<close>

theorem rerank_documents:
  assumes "rerank cohere self results h v = (Inr out, h', v')"
    and "\<forall>q\<in>set results. \<forall>a\<in>set (documents q). a < length h"
    and "\<forall>q texts u response u'.
           client_rerank cohere (client self) q texts (top_n self) (model_name self) u
             = (Inr response, u') \<longrightarrow>
           int (length response) \<le> top_n self"
    and "i < length results"
  shows "int (length (documents (out ! i))) \<le> top_n self \<and>
         (\<exists>response v0 v1.
           client_rerank cohere (client self) (query (results ! i))
             (map (\<lambda>a. doc_text (h ! a)) (documents (results ! i))) (top_n self)
             (model_name self) v0 = (Inr response, v1) \<and>
           length (documents (out ! i)) =
             length (filter (\<lambda>r. threshold self \<le> relevance_score r) response) \<and>
           (\<forall>j<length (documents (out ! i)).
              \<exists>a. py_getitem (documents (results ! i))
                     (index (filter (\<lambda>r. threshold self \<le> relevance_score r) response ! j)) = Inr a \<and>
                  a \<in> set (documents (results ! i)) \<and>
                  threshold self \<le>
                    relevance_score (filter (\<lambda>r. threshold self \<le> relevance_score r) response ! j) \<and>
                  h' ! (documents (out ! i) ! j) =
                    (h ! a)\<lparr>score := relevance_score
                       (filter (\<lambda>r. threshold self \<le> relevance_score r) response ! j)\<rparr>))"
proof -
  from rerank_documents_of_response [OF assms(1,2,4)] obtain response v0 v1 where
    call: "client_rerank cohere (client self) (query (results ! i))
             (map (\<lambda>a. doc_text (h ! a)) (documents (results ! i))) (top_n self)
             (model_name self) v0 = (Inr response, v1)"
    and len: "length (documents (out ! i)) =
             length (filter (\<lambda>r. threshold self \<le> relevance_score r) response)"
    and le: "length (documents (out ! i)) \<le> length response"
    and every: "\<forall>j<length (documents (out ! i)).
              \<exists>a. py_getitem (documents (results ! i))
                     (index (filter (\<lambda>r. threshold self \<le> relevance_score r) response ! j)) = Inr a \<and>
                  a \<in> set (documents (results ! i)) \<and>
                  threshold self \<le>
                    relevance_score (filter (\<lambda>r. threshold self \<le> relevance_score r) response ! j) \<and>
                  h' ! (documents (out ! i) ! j) =
                    (h ! a)\<lparr>score := relevance_score
                       (filter (\<lambda>r. threshold self \<le> relevance_score r) response ! j)\<rparr>"
    by blast
  from assms(3) call have "int (length response) \<le> top_n self" by blast
  with le have bound: "int (length (documents (out ! i))) \<le> top_n self" by linarith
  have "\<exists>response v0 v1.
           client_rerank cohere (client self) (query (results ! i))
             (map (\<lambda>a. doc_text (h ! a)) (documents (results ! i))) (top_n self)
             (model_name self) v0 = (Inr response, v1) \<and>
           length (documents (out ! i)) =
             length (filter (\<lambda>r. threshold self \<le> relevance_score r) response) \<and>
           (\<forall>j<length (documents (out ! i)).
              \<exists>a. py_getitem (documents (results ! i))
                     (index (filter (\<lambda>r. threshold self \<le> relevance_score r) response ! j)) = Inr a \<and>
                  a \<in> set (documents (results ! i)) \<and>
                  threshold self \<le>
                    relevance_score (filter (\<lambda>r. threshold self \<le> relevance_score r) response ! j) \<and>
                  h' ! (documents (out ! i) ! j) =
                    (h ! a)\<lparr>score := relevance_score
                       (filter (\<lambda>r. threshold self \<le> relevance_score r) response ! j)\<rparr>)"
    using call len every by (intro exI conjI) assumption+
  with bound show ?thesis by (rule conjI)
qed

theorem rerank_documents_witness:
  "int (length (documents ([\<lparr>query = ''greek letters'', documents = [2]\<rparr>] ! 0)))
     \<le> top_n top_one_reranker \<and>
   (\<exists>response v0 v1.
     client_rerank example_cohere (client top_one_reranker) (query (example_results ! 0))
       (map (\<lambda>a. doc_text (example_heap ! a)) (documents (example_results ! 0)))
       (top_n top_one_reranker) (model_name top_one_reranker) v0 = (Inr response, v1) \<and>
     length (documents ([\<lparr>query = ''greek letters'', documents = [2]\<rparr>] ! 0)) =
       length (filter (\<lambda>r. threshold top_one_reranker \<le> relevance_score r) response) \<and>
     (\<forall>j<length (documents ([\<lparr>query = ''greek letters'', documents = [2]\<rparr>] ! 0)).
        \<exists>a. py_getitem (documents (example_results ! 0))
               (index (filter (\<lambda>r. threshold top_one_reranker \<le> relevance_score r) response ! j))
               = Inr a \<and>
            a \<in> set (documents (example_results ! 0)) \<and>
            threshold top_one_reranker \<le>
              relevance_score
                (filter (\<lambda>r. threshold top_one_reranker \<le> relevance_score r) response ! j) \<and>
            (example_heap @ [\<lparr>doc_text = ''beta'', score = 9 / 10, other_fields = ()\<rparr>]) !
              (documents ([\<lparr>query = ''greek letters'', documents = [2]\<rparr>] ! 0) ! j) =
              (example_heap ! a)\<lparr>score := relevance_score
                 (filter (\<lambda>r. threshold top_one_reranker \<le> relevance_score r) response ! j)\<rparr>))"
proof -
  have wf: "\<forall>q\<in>set example_results. \<forall>a\<in>set (documents q). a < length example_heap"
    by (simp add: example_results_def example_heap_def)
  have contract: "\<forall>q texts u response u'.
      client_rerank example_cohere (client top_one_reranker) q texts (top_n top_one_reranker)
        (model_name top_one_reranker) u = (Inr response, u') \<longrightarrow>
      int (length response) \<le> top_n top_one_reranker"
    by (auto simp: example_cohere_def top_one_reranker_def)
  have i: "0 < length example_results"
    by (simp add: example_results_def)
  show ?thesis
    by (rule rerank_documents [OF top_one_run wf contract i])
qed

section \<open>Properties of construction\<close>

text \<open>
  C8, as stated, fails in its second half: with the library present the constructor goes
  on to \<open>cohere.Client(api_key=api_key)\<close>, and what that raises, construction raises.
  Here the library is present and the vendor's constructor refuses the missing key.
\<close>

theorem CohereReranker_init_counterexample:
  "cohere_installed (Some failing_cohere) \<and>
   CohereReranker_init (Some failing_cohere) None ''rerank-english-v2.0'' 10 0 0 =
     (Inl (UpstreamError ''No API key provided''), 1)"
  by (simp add: CohereReranker_init_def cohere_installed_def failing_cohere_def)

text \<open>
  C8, amended. If the library is not importable, constructing a \<open>CohereReranker\<close>
  raises \<open>ImportError\<close> (the specification's ConfigurationError) with the message that
  tells how to install it, and the world behind the vendor is untouched: no call has been
  made. If the library is present, the guard does not fire: construction builds the
  vendor client, returns the reranker with the given model name, \<open>top_n\<close> and threshold
  when that succeeds, and raises the vendor's error when it does not.
\<close>

theorem CohereReranker_init_guard:
  "(\<not> cohere_installed cohere \<longrightarrow>
      CohereReranker_init cohere api_key mname topn thr v =
        (Inl (ImportError import_error_message), v)) \<and>
   (cohere_installed cohere \<longrightarrow>
      (\<forall>e v'. Client (the cohere) api_key v = (Inl e, v') \<longrightarrow>
         CohereReranker_init cohere api_key mname topn thr v = (Inl e, v')) \<and>
      (\<forall>c v'. Client (the cohere) api_key v = (Inr c, v') \<longrightarrow>
         CohereReranker_init cohere api_key mname topn thr v =
           (Inr \<lparr>client = c, model_name = mname, top_n = topn, threshold = thr\<rparr>, v')))"
  by (simp add: CohereReranker_init_def)

theorem CohereReranker_init_guard_witness:
  "CohereReranker_init (None :: (unit, nat) cohere_module option) None
     ''rerank-english-v2.0'' 10 (1 / 2) 0 = (Inl (ImportError import_error_message), 0) \<and>
   CohereReranker_init (Some example_cohere) None ''rerank-english-v2.0'' 10 (1 / 2) 0 =
     (Inr example_reranker, 0) \<and>
   CohereReranker_init (Some failing_cohere) None ''rerank-english-v2.0'' 10 (1 / 2) 0 =
     (Inl (UpstreamError ''No API key provided''), 1)"
  using CohereReranker_init_guard
      [of "None :: (unit, nat) cohere_module option" None "''rerank-english-v2.0''" 10 "1 / 2" 0]
    CohereReranker_init_guard
      [of "Some example_cohere" None "''rerank-english-v2.0''" 10 "1 / 2" 0]
    CohereReranker_init_guard
      [of "Some failing_cohere" None "''rerank-english-v2.0''" 10 "1 / 2" 0]
  by (simp add: cohere_installed_def example_cohere_def example_reranker_def
      failing_cohere_def)

section \<open>Validation\<close>

lemma validate_missing:
  assumes "p \<in> set (required_properties (parameters function))"
    and "map_of kvs (property_name p) = None"
  shows "\<exists>p'\<in>set (required_properties (parameters function)).
           map_of kvs (property_name p') = None \<and>
           validate function (JObject kvs) =
             Inl (SchemaValidationError (required_message (property_name p')))"
proof -
  from assms obtain p' where
    f: "find (\<lambda>p. map_of kvs (property_name p) = None)
          (required_properties (parameters function)) = Some p'"
    by (cases "find (\<lambda>p. map_of kvs (property_name p) = None)
          (required_properties (parameters function))") (auto simp: find_None_iff)
  then have "p' \<in> set (required_properties (parameters function))"
    "map_of kvs (property_name p') = None"
    by (auto simp: find_Some_iff)
  with f show ?thesis by (auto simp: validate_def)
qed


lemma validate_Inl:
  "validate function payload = Inl err \<Longrightarrow> \<exists>msg. err = SchemaValidationError msg"
  by (cases payload) (auto simp: validate_def split: option.splits)




lemma attempt_Raises:
  "chat req v = (Raises e, v1) \<Longrightarrow>
     attempt retries chat req calls v = (Inl (UpstreamError e), Suc calls, v1)"
  by (cases retries) simp_all

lemma attempt_UpstreamError:
  "attempt retries chat req calls v = (Inl (UpstreamError e), calls', v') \<Longrightarrow>
     \<exists>v0. chat req v0 = (Raises e, v')"
proof (induction retries arbitrary: calls v)
  case 0
  then show ?case
    by (auto split: prod.splits ChatOutcome.splits dest: validate_Inl)
next
  case (Suc retries)
  then show ?case
    by (auto split: prod.splits ChatOutcome.splits sum.splits)
qed

section \<open>Properties of enforced_function_call\<close>

text \<open>
  C1. If every vendor call returns a structured payload that misses a required property
  of the Function Definition, \<open>enforced_function_call\<close> makes exactly 3 vendor calls
  and then raises the validation error whose message names a required property that the
  last payload misses.
\<close>

theorem enforced_function_call_exhausts_retries:
  assumes "\<forall>v. \<exists>kvs v1 p.
             chat \<lparr>request_messages = messages, request_function = function,
                   request_params = model_params\<rparr> v = (Returns (JObject kvs), v1) \<and>
             p \<in> set (required_properties (parameters function)) \<and>
             map_of kvs (property_name p) = None"
  shows "\<exists>p kvs v0 v'.
           enforced_function_call chat messages function model_params v =
             (Inl (SchemaValidationError (required_message (property_name p))), 3, v') \<and>
           p \<in> set (required_properties (parameters function)) \<and>
           chat \<lparr>request_messages = messages, request_function = function,
                 request_params = model_params\<rparr> v0 = (Returns (JObject kvs), v') \<and>
           map_of kvs (property_name p) = None"
proof -
  let ?req = "\<lparr>request_messages = messages, request_function = function,
               request_params = model_params\<rparr>"
  have step: "\<exists>kvs v1 p. chat ?req u = (Returns (JObject kvs), v1) \<and>
      p \<in> set (required_properties (parameters function)) \<and>
      map_of kvs (property_name p) = None \<and>
      validate function (JObject kvs) =
        Inl (SchemaValidationError (required_message (property_name p)))" for u
  proof -
    from assms obtain kvs v1 p where
      c: "chat ?req u = (Returns (JObject kvs), v1)"
      and p: "p \<in> set (required_properties (parameters function))"
        "map_of kvs (property_name p) = None"
      by blast
    from validate_missing [OF p] c show ?thesis by blast
  qed
  from step [of v] obtain kvs1 v1 p1 where
    c1: "chat ?req v = (Returns (JObject kvs1), v1)"
    and f1: "validate function (JObject kvs1) =
        Inl (SchemaValidationError (required_message (property_name p1)))"
    by blast
  from step [of v1] obtain kvs2 v2 p2 where
    c2: "chat ?req v1 = (Returns (JObject kvs2), v2)"
    and f2: "validate function (JObject kvs2) =
        Inl (SchemaValidationError (required_message (property_name p2)))"
    by blast
  from step [of v2] obtain kvs3 v3 p3 where
    c3: "chat ?req v2 = (Returns (JObject kvs3), v3)"
    and p3: "p3 \<in> set (required_properties (parameters function))"
      "map_of kvs3 (property_name p3) = None"
    and f3: "validate function (JObject kvs3) =
        Inl (SchemaValidationError (required_message (property_name p3)))"
    by blast
  have a0: "attempt 0 chat ?req (Suc (Suc 0)) v2 =
      (Inl (SchemaValidationError (required_message (property_name p3))), Suc (Suc (Suc 0)), v3)"
    using c3 f3 by simp
  have a1: "attempt (Suc 0) chat ?req (Suc 0) v1 = attempt 0 chat ?req (Suc (Suc 0)) v2"
    using c2 f2 by simp
  have a2: "attempt (Suc (Suc 0)) chat ?req 0 v = attempt (Suc 0) chat ?req (Suc 0) v1"
    using c1 f1 by simp
  have m: "max_attempts - 1 = Suc (Suc 0)" by (simp add: max_attempts_def)
  have "enforced_function_call chat messages function model_params v =
      (Inl (SchemaValidationError (required_message (property_name p3))), 3, v3)"
    unfolding enforced_function_call_def m a2 a1 a0 by (simp add: numeral_3_eq_3)
  with p3 c3 show ?thesis by blast
qed

theorem enforced_function_call_exhausts_retries_witness:
  "\<exists>p kvs v0 v'.
     enforced_function_call wrong_schema_client example_messages function_query_knowledgebase
       default_params 0 =
       (Inl (SchemaValidationError (required_message (property_name p))), 3, v') \<and>
     p \<in> set (required_properties (parameters function_query_knowledgebase)) \<and>
     wrong_schema_client
       \<lparr>request_messages = example_messages, request_function = function_query_knowledgebase,
        request_params = default_params\<rparr> v0 = (Returns (JObject kvs), v') \<and>
     map_of kvs (property_name p) = None"
proof (rule enforced_function_call_exhausts_retries)
  show "\<forall>v. \<exists>kvs v1 p.
      wrong_schema_client
        \<lparr>request_messages = example_messages, request_function = function_query_knowledgebase,
         request_params = default_params\<rparr> v = (Returns (JObject kvs), v1) \<and>
      p \<in> set (required_properties (parameters function_query_knowledgebase)) \<and>
      map_of kvs (property_name p) = None"
    by (simp add: wrong_schema_client_def function_query_knowledgebase_def)
qed

text \<open>The run of \<open>test_enforce_function_wrong_output_schema\<close>, evaluated.\<close>

lemma wrong_schema_run:
  "enforced_function_call wrong_schema_client example_messages function_query_knowledgebase
       default_params 0 =
     (Inl (SchemaValidationError (required_message ''queries'')), 3, 3)"
  by (simp add: enforced_function_call_def max_attempts_def numeral_3_eq_3
      wrong_schema_client_def function_query_knowledgebase_def validate_def)

text \<open>
  C4. A vendor call that raises is never retried, at whatever attempt it happens:
  \<open>enforced_function_call\<close> raises that error right after this call. So when the
  vendor raises at once there has been a single vendor call; when it raises after one or
  two payloads that failed validation, the raising call is the second or the third and
  the last. An \<open>UpstreamError\<close> that \<open>enforced_function_call\<close> raises is always the
  error of its last vendor call.
\<close>

theorem enforced_function_call_vendor_error:
  "(chat req v = (Raises e, v1) \<longrightarrow>
      attempt retries chat req calls v = (Inl (UpstreamError e), Suc calls, v1)) \<and>
   (chat \<lparr>request_messages = messages, request_function = function,
          request_params = model_params\<rparr> v = (Raises e, v1) \<longrightarrow>
      enforced_function_call chat messages function model_params v =
        (Inl (UpstreamError e), 1, v1)) \<and>
   (chat \<lparr>request_messages = messages, request_function = function,
          request_params = model_params\<rparr> v = (Returns p1, u1) \<and>
    validate function p1 = Inl err1 \<and>
    chat \<lparr>request_messages = messages, request_function = function,
          request_params = model_params\<rparr> u1 = (Raises e, v1) \<longrightarrow>
      enforced_function_call chat messages function model_params v =
        (Inl (UpstreamError e), 2, v1)) \<and>
   (chat \<lparr>request_messages = messages, request_function = function,
          request_params = model_params\<rparr> v = (Returns p1, u1) \<and>
    validate function p1 = Inl err1 \<and>
    chat \<lparr>request_messages = messages, request_function = function,
          request_params = model_params\<rparr> u1 = (Returns p2, u2) \<and>
    validate function p2 = Inl err2 \<and>
    chat \<lparr>request_messages = messages, request_function = function,
          request_params = model_params\<rparr> u2 = (Raises e, v1) \<longrightarrow>
      enforced_function_call chat messages function model_params v =
        (Inl (UpstreamError e), 3, v1)) \<and>
   (enforced_function_call chat messages function model_params v =
      (Inl (UpstreamError e), calls', v') \<longrightarrow>
      (\<exists>v0. chat \<lparr>request_messages = messages, request_function = function,
                   request_params = model_params\<rparr> v0 = (Raises e, v')))"
proof -
  let ?req = "\<lparr>request_messages = messages, request_function = function,
               request_params = model_params\<rparr>"
  have m: "max_attempts - 1 = Suc (Suc 0)" by (simp add: max_attempts_def)
  have any: "chat req v = (Raises e, v1) \<longrightarrow>
      attempt retries chat req calls v = (Inl (UpstreamError e), Suc calls, v1)"
    by (simp add: attempt_Raises)
  have first: "chat ?req v = (Raises e, v1) \<longrightarrow>
      enforced_function_call chat messages function model_params v =
        (Inl (UpstreamError e), 1, v1)"
    unfolding enforced_function_call_def m by (simp add: attempt_Raises)
  have second: "chat ?req v = (Returns p1, u1) \<and> validate function p1 = Inl err1 \<and>
      chat ?req u1 = (Raises e, v1) \<longrightarrow>
      enforced_function_call chat messages function model_params v =
        (Inl (UpstreamError e), 2, v1)"
    unfolding enforced_function_call_def m by (simp add: numeral_2_eq_2)
  have third: "chat ?req v = (Returns p1, u1) \<and> validate function p1 = Inl err1 \<and>
      chat ?req u1 = (Returns p2, u2) \<and> validate function p2 = Inl err2 \<and>
      chat ?req u2 = (Raises e, v1) \<longrightarrow>
      enforced_function_call chat messages function model_params v =
        (Inl (UpstreamError e), 3, v1)"
    unfolding enforced_function_call_def m by (simp add: numeral_3_eq_3)
  have last: "enforced_function_call chat messages function model_params v =
      (Inl (UpstreamError e), calls', v') \<longrightarrow> (\<exists>v0. chat ?req v0 = (Raises e, v'))"
    unfolding enforced_function_call_def using attempt_UpstreamError by fast
  from any first second third last show ?thesis by (intro conjI)
qed

theorem enforced_function_call_vendor_error_witness:
  "enforced_function_call failing_client example_messages function_query_knowledgebase
     default_params 0 = (Inl (UpstreamError ''API call failed''), 1, 1) \<and>
   enforced_function_call flaky_client example_messages function_query_knowledgebase
     default_params 0 = (Inl (UpstreamError ''API call failed''), 2, 2)"
proof -
  let ?req = "\<lparr>request_messages = example_messages,
               request_function = function_query_knowledgebase,
               request_params = default_params\<rparr>"
  have raise1: "failing_client ?req 0 = (Raises ''API call failed'', 1)"
    by (simp add: failing_client_def)
  have answer: "flaky_client ?req 0 = (Returns (JObject [(''key'', JString ''value'')]), 1)"
    by (simp add: flaky_client_def)
  have bad: "validate function_query_knowledgebase (JObject [(''key'', JString ''value'')]) =
      Inl (SchemaValidationError (required_message ''queries''))"
    by (simp add: validate_def function_query_knowledgebase_def)
  have raise2: "flaky_client ?req 1 = (Raises ''API call failed'', 2)"
    by (simp add: flaky_client_def)
  have one: "enforced_function_call failing_client example_messages
      function_query_knowledgebase default_params 0 =
      (Inl (UpstreamError ''API call failed''), 1, 1)"
    using enforced_function_call_vendor_error
        [THEN conjunct2, THEN conjunct1,
         of failing_client example_messages function_query_knowledgebase default_params 0
            "''API call failed''" 1]
      raise1
    by (rule mp)
  have two: "enforced_function_call flaky_client example_messages
      function_query_knowledgebase default_params 0 =
      (Inl (UpstreamError ''API call failed''), 2, 2)"
    using enforced_function_call_vendor_error
        [THEN conjunct2, THEN conjunct2, THEN conjunct1,
         of flaky_client example_messages function_query_knowledgebase default_params 0
            "JObject [(''key'', JString ''value'')]" 1
            "SchemaValidationError (required_message ''queries'')" "''API call failed''" 2]
      conjI [OF answer conjI [OF bad raise2]]
    by (rule mp)
  from one two show ?thesis by (rule conjI)
qed




text \<open>
  A payload whose \<open>queries\<close> is the empty list, or holds an empty string, fails
  validation; a vendor that keeps answering with the empty list exhausts the attempts.
\<close>

lemma validate_rejects_empty:
  "validate function_query_knowledgebase (JObject [(''queries'', JArray [])]) =
     Inl (SchemaValidationError (type_message ''queries''))"
  "validate function_query_knowledgebase (JObject [(''queries'', JArray [JString []])]) =
     Inl (SchemaValidationError (type_message ''queries''))"
  by (simp_all add: validate_def function_query_knowledgebase_def)

lemma empty_queries_run:
  "enforced_function_call empty_queries_client example_messages function_query_knowledgebase
     default_params 0 = (Inl (SchemaValidationError (type_message ''queries'')), 3, 3)"
  by (simp add: enforced_function_call_def max_attempts_def numeral_3_eq_3
      empty_queries_client_def function_query_knowledgebase_def validate_def)

end
